theory Spec2Isabelle
  imports Main "HOL-Library.Sublist" "HOL-Library.AList"
begin

section \<open>Python values used by hangman.py\<close>

text \<open>
  The exceptions that the modelled functions can raise. A function that can raise returns
  a sum: \<open>Inl\<close> carries the exception, \<open>Inr\<close> the value.
\<close>

datatype py_error =
    KeyError
  | TypeError
  | IndexError
  | FileNotFoundError
  | JSONDecodeError
  | UnicodeDecodeError
  | ValueError
  | RecursionError
  | PermissionError

subsection \<open>Strings\<close>

text \<open>
  A Python \<^verbatim>\<open>str\<close> is the list of its code points, so that \<^verbatim>\<open>len\<close> is the length of the
  list, and a letter, for which Python has no type of its own, is a list of length one.
  \<open>str\<close> turns a literal of the source into this form.
\<close>

type_synonym py_str = "nat list"

definition str :: "string \<Rightarrow> py_str" where
  "str s = map of_char s"

text \<open>
  \<^verbatim>\<open>str.isalpha\<close> and \<^verbatim>\<open>str.lower\<close> read the Unicode database of the interpreter. For the
  code points below 256 the two tables are written out: the letters are A-Z, a-z, the
  three code points 170, 181 and 186, and 192-255 without the two signs 215 and 247;
  \<^verbatim>\<open>lower\<close> adds 32 to A-Z and to 192-222 without 215, and keeps every other code point.
\<close>

definition latin1_isalpha :: "nat \<Rightarrow> bool" where
  "latin1_isalpha n =
     ((65 \<le> n \<and> n \<le> 90) \<or> (97 \<le> n \<and> n \<le> 122) \<or> n = 170 \<or> n = 181 \<or> n = 186
      \<or> (192 \<le> n \<and> n \<le> 214) \<or> (216 \<le> n \<and> n \<le> 246) \<or> (248 \<le> n \<and> n \<le> 255))"

definition latin1_lower :: "nat \<Rightarrow> nat" where
  "latin1_lower n =
     (if (65 \<le> n \<and> n \<le> 90) \<or> (192 \<le> n \<and> n \<le> 214) \<or> (216 \<le> n \<and> n \<le> 222)
      then n + 32 else n)"

text \<open>
  The rest of the database is a parameter of the model: which code points from 256 up
  are letters, and what \<^verbatim>\<open>lower\<close> returns for a string that has such a code point (there
  the result can depend on the neighbours of a character and can be longer than the
  string). Every function that reads the database takes it as its first argument \<open>U\<close>,
  and what is proved holds for every \<open>U\<close>, so for the database of the interpreter.
\<close>

record unicode_data =
  high_isalpha :: "nat \<Rightarrow> bool"
  high_lower :: "py_str \<Rightarrow> py_str"

text \<open>
  One entry from 256 up is written out, because a claim depends on it: the code point
  304 (U+0130, capital I with dot above) is a letter, and \<^verbatim>\<open>lower\<close> turns the string that
  consists of it into the two code points 105 and 775.
\<close>

definition isalpha_chr :: "unicode_data \<Rightarrow> nat \<Rightarrow> bool" where
  "isalpha_chr U n =
     (if n < 256 then latin1_isalpha n else if n = 304 then True else high_isalpha U n)"

text \<open>\<^verbatim>\<open>s.isalpha()\<close>: false on the empty string, else every character is a letter.\<close>

definition isalpha :: "unicode_data \<Rightarrow> py_str \<Rightarrow> bool" where
  "isalpha U s = (s \<noteq> [] \<and> list_all (isalpha_chr U) s)"

text \<open>\<^verbatim>\<open>s.lower()\<close>.\<close>

definition lower :: "unicode_data \<Rightarrow> py_str \<Rightarrow> py_str" where
  "lower U s =
     (if list_all (\<lambda>n. n < 256) s then map latin1_lower s
      else if s = [304] then [105, 775]
      else high_lower U s)"

text \<open>
  The database used where the model is run on concrete lines: it has no letter from 256
  up beyond the entry above, and its \<^verbatim>\<open>lower\<close> keeps the other strings. The lines run
  are made of code points below 256 or are the one string written out, so that their
  results are the same for every database.
\<close>

definition no_high_letters :: unicode_data where
  "no_high_letters = \<lparr>high_isalpha = (\<lambda>n. False), high_lower = (\<lambda>s. s)\<rparr>"

text \<open>\<^verbatim>\<open>x in w\<close> for two strings: \<open>x\<close> occurs in \<open>w\<close> as a contiguous piece.\<close>

fun str_in :: "py_str \<Rightarrow> py_str \<Rightarrow> bool" where
  "str_in x [] = (x = [])"
| "str_in x (c # w) = (prefix x (c # w) \<or> str_in x w)"

text \<open>\<^verbatim>\<open>for letter in word\<close>: iterating a string yields its characters as strings of length one.\<close>

definition letters :: "py_str \<Rightarrow> py_str list" where
  "letters w = map (\<lambda>c. [c]) w"

subsection \<open>Lists and random choice\<close>

text \<open>
  \<^verbatim>\<open>xs[i]\<close> on a list: an index from \<open>- len\<close> up to \<open>-1\<close> counts from the end, and an index
  outside \<open>- len .. len - 1\<close> raises \<^verbatim>\<open>IndexError\<close>.
\<close>

definition subscript :: "'a list \<Rightarrow> int \<Rightarrow> py_error + 'a" where
  "subscript xs i =
     (if 0 \<le> i \<and> i < int (length xs) then Inr (xs ! nat i)
      else if - int (length xs) \<le> i \<and> i < 0 then Inr (xs ! nat (int (length xs) + i))
      else Inl IndexError)"

text \<open>
  \<^verbatim>\<open>random.choice(xs)\<close> returns \<^verbatim>\<open>xs[k]\<close> for a \<open>k\<close> below \<open>len(xs)\<close> that the generator
  draws. The number drawn is the parameter \<open>r\<close>, reduced to the range; every \<open>r\<close> is a
  possible draw. Both calls of the source are on a list that is not empty.
\<close>

definition random_choice :: "nat \<Rightarrow> 'a list \<Rightarrow> 'a" where
  "random_choice r xs = xs ! (r mod length xs)"

section \<open>The tables of the game\<close>

definition word_categories :: "(string \<times> string list) list" where
  "word_categories =
     [(''fruits'',
        [''apple'', ''banana'', ''mango'', ''strawberry'', ''orange'', ''grape'', ''pineapple'',
         ''apricot'', ''lemon'', ''coconut'', ''watermelon'', ''cherry'', ''papaya'', ''berry'',
         ''peach'', ''lychee'', ''muskmelon'', ''kiwi'', ''pomegranate'', ''dragonfruit'']),
      (''animals'',
        [''elephant'', ''giraffe'', ''monkey'', ''zebra'', ''lion'', ''tiger'', ''bear'',
         ''wolf'', ''fox'', ''deer'', ''rabbit'', ''squirrel'', ''dolphin'', ''whale'',
         ''shark'', ''eagle'', ''hawk'', ''snake'', ''turtle'', ''crocodile'']),
      (''countries'',
        [''india'', ''australia'', ''japan'', ''brazil'', ''canada'', ''mexico'',
         ''france'', ''germany'', ''italy'', ''spain'', ''egypt'', ''china'',
         ''russia'', ''kenya'', ''nigeria'', ''peru'', ''chile'', ''sweden'', ''finland'',
         ''norway'']),
      (''vegetables'',
        [''carrot'', ''potato'', ''tomato'', ''cabbage'', ''spinach'', ''broccoli'',
         ''cauliflower'', ''cucumber'', ''eggplant'', ''pepper'', ''celery'',
         ''lettuce'', ''radish'', ''onion'', ''garlic'', ''pumpkin'', ''zucchini'',
         ''squash''])]"

text \<open>
  \<^verbatim>\<open>difficulty_levels\<close>: each inner dictionary \<^verbatim>\<open>{'max_wrong': m, 'hint': h}\<close> is the pair
  \<open>(m, h)\<close>.
\<close>

definition difficulty_levels :: "(string \<times> int \<times> bool) list" where
  "difficulty_levels = [(''easy'', 8, True), (''medium'', 6, True), (''hard'', 4, False)]"

text \<open>\<^verbatim>\<open>hangman_pics\<close>, the seven stages; the backslash is the character 0x5C.\<close>

definition hangman_pics :: "string list" where
  "hangman_pics =
     [''\<newline>      +---+\<newline>          |\<newline>          |\<newline>          |\<newline>         ==='',
      ''\<newline>      +---+\<newline>      O   |\<newline>          |\<newline>          |\<newline>         ==='',
      ''\<newline>      +---+\<newline>      O   |\<newline>      |   |\<newline>          |\<newline>         ==='',
      ''\<newline>      +---+\<newline>      O   |\<newline>     /|   |\<newline>          |\<newline>         ==='',
      ''\<newline>      +---+\<newline>      O   |\<newline>     /|'' @ [CHR 0x5C] @ ''  |\<newline>          |\<newline>         ==='',
      ''\<newline>      +---+\<newline>      O   |\<newline>     /|'' @ [CHR 0x5C] @ ''  |\<newline>     /    |\<newline>         ==='',
      ''\<newline>      +---+\<newline>      O   |\<newline>     /|'' @ [CHR 0x5C] @ ''  |\<newline>     / '' @ [CHR 0x5C] @ ''  |\<newline>         ==='']"

section \<open>The score file\<close>

text \<open>
  What \<^verbatim>\<open>json.load\<close> can return: the decoded value of a JSON text. An object is a Python
  dictionary, kept as a list of its entries in insertion order (its keys are distinct);
  numbers with a fraction are left out of the model.
\<close>

datatype json =
    JNull
  | JBool bool
  | JInt int
  | JStr string
  | JList "json list"
  | JDict "(string \<times> json) list"

text \<open>
  The file \<^verbatim>\<open>hangman_scores.json\<close> as the two library calls of \<^verbatim>\<open>load_scores\<close> see it:
  \<^verbatim>\<open>open\<close> followed by \<^verbatim>\<open>json.load\<close> either raises an exception or returns the value
  decoded from the text of the file. The exceptions are \<^verbatim>\<open>FileNotFoundError\<close> when there is
  no file, \<^verbatim>\<open>JSONDecodeError\<close> when the text is not JSON, \<^verbatim>\<open>UnicodeDecodeError\<close> when the
  bytes of the file are not text, \<^verbatim>\<open>ValueError\<close> and \<^verbatim>\<open>RecursionError\<close> for a number too long
  or a nesting too deep for the decoder, \<^verbatim>\<open>PermissionError\<close> for a file that may not be
  read. \<^verbatim>\<open>json.dump\<close> followed by \<^verbatim>\<open>json.load\<close> gives the value back; a failure of the
  write in \<^verbatim>\<open>save_score\<close> is outside the model.
\<close>

datatype store = Fails py_error | Holds json

text \<open>
  \<^verbatim>\<open>load_scores()\<close>, reading the file \<open>st\<close>. The \<^verbatim>\<open>except\<close> clause names two classes; an
  exception of another class leaves the function. (\<^verbatim>\<open>JSONDecodeError\<close> is a subclass of
  \<^verbatim>\<open>ValueError\<close>, not the other way round, so a plain \<^verbatim>\<open>ValueError\<close> and
  \<^verbatim>\<open>UnicodeDecodeError\<close> are not caught.)
\<close>

definition load_scores :: "store \<Rightarrow> py_error + json" where
  "load_scores st =
     (case st of
        Holds v \<Rightarrow> Inr v
      | Fails e \<Rightarrow>
          if e = FileNotFoundError \<or> e = JSONDecodeError
          then Inr (JDict [(''easy'', JInt 0), (''medium'', JInt 0), (''hard'', JInt 0)])
          else Inl e)"

text \<open>
  \<^verbatim>\<open>scores[key]\<close> with a string key: a dictionary without the key raises \<^verbatim>\<open>KeyError\<close>, a
  list or a string wants an integer index and any other value has no subscript, which is
  a \<^verbatim>\<open>TypeError\<close>.
\<close>

fun getitem :: "json \<Rightarrow> string \<Rightarrow> py_error + json" where
  "getitem (JDict kvs) k = (case map_of kvs k of None \<Rightarrow> Inl KeyError | Some v \<Rightarrow> Inr v)"
| "getitem v k = Inl TypeError"

text \<open>
  \<^verbatim>\<open>score > v\<close> for an integer \<open>score\<close>: an integer compares, a boolean compares as 0 or 1,
  and \<^verbatim>\<open>None\<close>, a string, a list or a dictionary raise \<^verbatim>\<open>TypeError\<close>.
\<close>

fun int_gt :: "int \<Rightarrow> json \<Rightarrow> py_error + bool" where
  "int_gt n (JInt m) = Inr (m < n)"
| "int_gt n (JBool b) = Inr ((if b then 1 else 0) < n)"
| "int_gt n v = Inl TypeError"

text \<open>
  \<^verbatim>\<open>scores[key] = v\<close>: a dictionary replaces the entry of the key where it stands, or adds
  the entry at the end; the other values raise \<^verbatim>\<open>TypeError\<close>.
\<close>

fun setitem :: "json \<Rightarrow> string \<Rightarrow> json \<Rightarrow> py_error + json" where
  "setitem (JDict kvs) k v = Inr (JDict (AList.update k v kvs))"
| "setitem x k v = Inl TypeError"

text \<open>
  \<^verbatim>\<open>save_score(difficulty, score)\<close> on the file \<open>st\<close>: the result is the exception, or the
  boolean returned together with the file afterwards. The file is written only in the
  branch that returns \<^verbatim>\<open>True\<close>.
\<close>

definition save_score :: "store \<Rightarrow> string \<Rightarrow> int \<Rightarrow> py_error + (bool \<times> store)" where
  "save_score st dif score =
     (case load_scores st of
        Inl e \<Rightarrow> Inl e
      | Inr scores \<Rightarrow>
          (case getitem scores dif of
             Inl e \<Rightarrow> Inl e
           | Inr old \<Rightarrow>
               (case int_gt score old of
                  Inl e \<Rightarrow> Inl e
                | Inr better \<Rightarrow>
                    if better
                    then (case setitem scores dif (JInt score) of
                            Inl e \<Rightarrow> Inl e
                          | Inr scores' \<Rightarrow> Inr (True, Holds scores'))
                    else Inr (False, st))))"

section \<open>Hint, display and score\<close>

text \<open>\<^verbatim>\<open>get_hint(word, guessed_letters)\<close>, with the number \<open>r\<close> that \<^verbatim>\<open>random.choice\<close> draws.\<close>

definition get_hint :: "nat \<Rightarrow> py_str \<Rightarrow> py_str set \<Rightarrow> py_str option" where
  "get_hint r w guessed =
     (let not_guessed = filter (\<lambda>letter. letter \<notin> guessed) (letters w)
      in if not_guessed \<noteq> [] then Some (random_choice r not_guessed) else None)"

text \<open>
  The first two statements of \<^verbatim>\<open>display_game_state\<close>: the stage, and the picture printed
  (without the colour codes around it). Of the five parameters only \<^verbatim>\<open>wrong_attempts\<close>
  reaches a subscript, and the model takes that one; the prints that follow (category,
  attempts remaining, letters guessed, the word with its blanks) cannot raise and are not
  modelled.
\<close>

definition hangman_stage :: "int \<Rightarrow> int" where
  "hangman_stage wrong = min wrong (int (length hangman_pics) - 1)"

definition display_game_state :: "int \<Rightarrow> py_error + string" where
  "display_game_state wrong = subscript hangman_pics (hangman_stage wrong)"

text \<open>
  \<^verbatim>\<open>difficulty_multiplier = {'easy': 1, 'medium': 2, 'hard': 3}\<close>, the dictionary local to
  \<^verbatim>\<open>calculate_score\<close>.
\<close>

definition difficulty_multiplier :: "(string \<times> int) list" where
  "difficulty_multiplier = [(''easy'', 1), (''medium'', 2), (''hard'', 3)]"

text \<open>
  \<^verbatim>\<open>calculate_score(difficulty, word_length, wrong_attempts)\<close>. The subscript
  \<^verbatim>\<open>difficulty_multiplier[difficulty]\<close> raises \<^verbatim>\<open>KeyError\<close> for any other key; nothing
  before it has an effect, so the order of evaluation is not visible.
\<close>

definition calculate_score :: "string \<Rightarrow> int \<Rightarrow> int \<Rightarrow> py_error + int" where
  "calculate_score dif word_length wrong =
     (let base_score = word_length * 10;
          penalty = wrong * 5
      in case map_of difficulty_multiplier dif of
           None \<Rightarrow> Inl KeyError
         | Some m \<Rightarrow> Inr (max 0 (base_score - penalty) * m))"

section \<open>One round: play\_hangman\<close>

text \<open>
  The local variables of \<^verbatim>\<open>play_hangman\<close>. \<open>hint\<close> is \<^verbatim>\<open>difficulty_settings['hint']\<close>;
  \<^verbatim>\<open>game_over\<close> is false whenever the loop body runs and is left out.
\<close>

record round_state =
  difficulty :: string
  word :: py_str
  guessed_letters :: "py_str set"
  wrong_attempts :: int
  max_wrong :: int
  hint :: bool
  hint_used :: bool

text \<open>
  Where a round stands: the loop goes on, or it was left by the win branch, by the loss
  branch, by the \<^verbatim>\<open>return\<close> of the quit command, or by an exception.
\<close>

datatype status = InProgress | Won | Lost | Aborted | Raised py_error

text \<open>The branch that one input line takes in the loop body.\<close>

datatype event =
    Quit
  | Hinted "py_str option"
  | NotSingleLetter
  | AlreadyGuessed
  | GoodGuess
  | WrongGuess

text \<open>
  The two checks at the head of the loop body: the win check comes first and breaks, the
  loss check comes second.
\<close>

definition round_status :: "round_state \<Rightarrow> status" where
  "round_status s =
     (if list_all (\<lambda>letter. letter \<in> guessed_letters s) (letters (word s)) then Won
      else if max_wrong s \<le> wrong_attempts s then Lost
      else InProgress)"

text \<open>
  From \<^verbatim>\<open># Validate guess\<close> to the end of the loop body, on the lowered input \<open>guess\<close>:
  the two refusals leave by \<^verbatim>\<open>continue\<close> before anything is assigned.
\<close>

definition submit_guess :: "unicode_data \<Rightarrow> round_state \<Rightarrow> py_str \<Rightarrow> event \<times> round_state" where
  "submit_guess U s guess =
     (if \<not> isalpha U guess \<or> length guess \<noteq> 1 then (NotSingleLetter, s)
      else if guess \<in> guessed_letters s then (AlreadyGuessed, s)
      else if str_in guess (word s)
        then (GoodGuess, s\<lparr>guessed_letters := insert guess (guessed_letters s)\<rparr>)
        else (WrongGuess, s\<lparr>guessed_letters := insert guess (guessed_letters s),
                              wrong_attempts := wrong_attempts s + 1\<rparr>))"

text \<open>
  The loop body from \<^verbatim>\<open>input\<close> on. An input is the line typed, with the number that
  \<^verbatim>\<open>random.choice\<close> draws if this turn asks for the hint.
\<close>

definition turn :: "unicode_data \<Rightarrow> round_state \<Rightarrow> nat \<times> py_str \<Rightarrow> event \<times> round_state" where
  "turn U s inp =
     (let guess = lower U (snd inp)
      in if guess = str ''!'' then (Quit, s)
         else if guess = str ''?'' \<and> hint s \<and> \<not> hint_used s
           then (Hinted (get_hint (fst inp) (word s) (guessed_letters s)), s\<lparr>hint_used := True\<rparr>)
         else submit_guess U s guess)"

text \<open>
  The \<^verbatim>\<open>while\<close> loop on the lines \<open>ins\<close> that the player types. Every iteration first
  displays the state, then makes the two checks, then reads a line. When the lines are
  used up and the round is still open the loop waits in \<^verbatim>\<open>input\<close>: the result is then
  \<open>InProgress\<close> with the state it waits in. Lines after the end of the round are not read.
\<close>

fun play_loop ::
  "unicode_data \<Rightarrow> round_state \<Rightarrow> (nat \<times> py_str) list \<Rightarrow> status \<times> round_state"
where
  "play_loop U s [] =
     (case display_game_state (wrong_attempts s) of
        Inl e \<Rightarrow> (Raised e, s)
      | Inr picture \<Rightarrow> (round_status s, s))"
| "play_loop U s (inp # ins) =
     (case display_game_state (wrong_attempts s) of
        Inl e \<Rightarrow> (Raised e, s)
      | Inr picture \<Rightarrow>
          if round_status s = InProgress
          then (case turn U s inp of
                  (Quit, s') \<Rightarrow> (Aborted, s')
                | (e, s') \<Rightarrow> play_loop U s' ins)
          else (round_status s, s))"

text \<open>
  The state that \<^verbatim>\<open>play_hangman\<close> sets up before the loop, from the difficulty, its entry
  \<open>(m, h)\<close> of \<^verbatim>\<open>difficulty_levels\<close> and the word chosen.
\<close>

definition new_round :: "string \<Rightarrow> int \<times> bool \<Rightarrow> py_str \<Rightarrow> round_state" where
  "new_round dif difficulty_settings w =
     \<lparr>difficulty = dif, word = w, guessed_letters = {}, wrong_attempts = 0,
      max_wrong = fst difficulty_settings, hint = snd difficulty_settings,
      hint_used = False\<rparr>"

text \<open>
  \<^verbatim>\<open>play_hangman()\<close> up to the end of the loop, for the category and the difficulty that the
  two menus return, the number \<open>r\<close> drawn for the word, the lines \<open>ins\<close> and the score file
  \<open>st\<close>. The result is how the round ended, the score computed in the win branch, and the
  file afterwards.
\<close>

definition play_hangman ::
  "unicode_data \<Rightarrow> store \<Rightarrow> string \<Rightarrow> string \<Rightarrow> nat \<Rightarrow> (nat \<times> py_str) list
     \<Rightarrow> py_error + (status \<times> int option \<times> store)"
where
  "play_hangman U st category dif r ins =
     (case map_of difficulty_levels dif of
        None \<Rightarrow> Inl KeyError
      | Some difficulty_settings \<Rightarrow>
          (case map_of word_categories category of
             None \<Rightarrow> Inl KeyError
           | Some ws \<Rightarrow>
               (case play_loop U (new_round dif difficulty_settings (str (random_choice r ws))) ins of
                  (Won, s) \<Rightarrow>
                    (case calculate_score dif (int (length (word s))) (wrong_attempts s) of
                       Inl e \<Rightarrow> Inl e
                     | Inr score \<Rightarrow>
                         (case save_score st dif score of
                            Inl e \<Rightarrow> Inl e
                          | Inr (b, st') \<Rightarrow> Inr (Won, Some score, st')))
                | (Raised e, s) \<Rightarrow> Inl e
                | (res, s) \<Rightarrow> Inr (res, None, st))))"

section \<open>Notions of the specification\<close>

text \<open>
  The invariant of the round state: \<^verbatim>\<open>wrong_attempts\<close> is the number of guessed letters
  that do not occur in the word. The set of guessed letters is finite, so that the number
  is a count.
\<close>

definition count_invariant :: "round_state \<Rightarrow> bool" where
  "count_invariant s =
     (finite (guessed_letters s)
      \<and> wrong_attempts s = int (card {g \<in> guessed_letters s. \<not> str_in g (word s)}))"

text \<open>
  An incorrect letter for the word \<open>w\<close>: a line that, once lowered, is one alphabetic
  character that does not occur in \<open>w\<close>.
\<close>

definition wrong_letter :: "unicode_data \<Rightarrow> py_str \<Rightarrow> py_str \<Rightarrow> bool" where
  "wrong_letter U w x =
     (isalpha U (lower U x) \<and> length (lower U x) = 1 \<and> \<not> str_in (lower U x) w)"

text \<open>
  The value stored for a difficulty, as \<^verbatim>\<open>save_score\<close> reads it: \<^verbatim>\<open>load_scores()\<close>
  subscripted with the difficulty.
\<close>

definition stored :: "store \<Rightarrow> string \<Rightarrow> py_error + json" where
  "stored st dif = (case load_scores st of Inl e \<Rightarrow> Inl e | Inr scores \<Rightarrow> getitem scores dif)"

section \<open>Basic facts\<close>

subsection \<open>Strings\<close>

lemma str_in_letter: "str_in [c] w \<longleftrightarrow> c \<in> set w"
  by (induction w) auto







lemma lower_question: "lower U (str ''?'') = str ''?''"
  by (simp add: lower_def str_def latin1_lower_def)

lemma isalpha_not_command: "isalpha U g \<Longrightarrow> g \<noteq> str ''!'' \<and> g \<noteq> str ''?''"
  by (auto simp: isalpha_def isalpha_chr_def latin1_isalpha_def str_def)

subsection \<open>The display\<close>

lemma length_hangman_pics: "length hangman_pics = 7"
  by (simp add: hangman_pics_def)

lemma display_game_state_nonneg:
  assumes "0 \<le> wrong"
  shows "display_game_state wrong = Inr (hangman_pics ! nat (min wrong 6))"
  using assms
  by (simp add: display_game_state_def hangman_stage_def subscript_def length_hangman_pics)

subsection \<open>One turn\<close>

lemma submit_guess_cases:
  "submit_guess U s g = (NotSingleLetter, s)
   \<or> submit_guess U s g = (AlreadyGuessed, s)
   \<or> (g \<notin> guessed_letters s \<and> str_in g (word s)
        \<and> submit_guess U s g = (GoodGuess, s\<lparr>guessed_letters := insert g (guessed_letters s)\<rparr>))
   \<or> (g \<notin> guessed_letters s \<and> \<not> str_in g (word s)
        \<and> submit_guess U s g = (WrongGuess, s\<lparr>guessed_letters := insert g (guessed_letters s),
                                                wrong_attempts := wrong_attempts s + 1\<rparr>))"
  by (simp add: submit_guess_def)

lemma turn_letter: "isalpha U (lower U x) \<Longrightarrow> turn U s (r, x) = submit_guess U s (lower U x)"
  by (auto simp: turn_def Let_def dest: isalpha_not_command)

lemma turn_wrong_attempts_mono: "wrong_attempts s \<le> wrong_attempts (snd (turn U s inp))"
  by (simp add: turn_def Let_def submit_guess_def)

lemma turn_hint_used: "hint_used s \<Longrightarrow> hint_used (snd (turn U s inp))"
  by (simp add: turn_def Let_def submit_guess_def)

lemma turn_hint_refused:
  assumes "\<not> hint s \<or> hint_used s"
  shows "turn U s (r, str ''?'') = (NotSingleLetter, s)"
proof -
  have "str ''?'' \<noteq> str ''!''" by (simp add: str_def)
  with assms have "turn U s (r, str ''?'') = submit_guess U s (str ''?'')"
    by (auto simp: turn_def Let_def lower_question)
  moreover have "\<not> isalpha U (str ''?'')" using isalpha_not_command [of U "str ''?''"] by blast
  ultimately show ?thesis by (simp add: submit_guess_def)
qed

subsection \<open>The loop\<close>

lemma play_loop_Nil: "0 \<le> wrong_attempts s \<Longrightarrow> play_loop U s [] = (round_status s, s)"
  by (simp add: display_game_state_nonneg)

lemma play_loop_over:
  "0 \<le> wrong_attempts s \<Longrightarrow> round_status s \<noteq> InProgress \<Longrightarrow> play_loop U s ins = (round_status s, s)"
  by (cases ins) (simp_all add: display_game_state_nonneg)

lemma play_loop_quit:
  "0 \<le> wrong_attempts s \<Longrightarrow> round_status s = InProgress \<Longrightarrow> turn U s inp = (Quit, s')
     \<Longrightarrow> play_loop U s (inp # ins) = (Aborted, s')"
  by (simp add: display_game_state_nonneg)

lemma play_loop_step:
  "0 \<le> wrong_attempts s \<Longrightarrow> round_status s = InProgress \<Longrightarrow> turn U s inp = (e, s') \<Longrightarrow> e \<noteq> Quit
     \<Longrightarrow> play_loop U s (inp # ins) = play_loop U s' ins"
  by (cases e) (simp_all add: display_game_state_nonneg)

text \<open>
  A property of the state that every turn keeps is kept by the whole loop, whatever way
  the loop is left.
\<close>

lemma play_loop_keeps:
  assumes step: "\<And>s inp. P s \<Longrightarrow> P (snd (turn U s inp))"
  shows "P s \<Longrightarrow> P (snd (play_loop U s ins))"
proof (induction ins arbitrary: s)
  case Nil
  then show ?case by (simp split: sum.splits)
next
  case (Cons inp ins)
  obtain e s' where t: "turn U s inp = (e, s')" by (cases "turn U s inp")
  with step [OF Cons.prems, of inp] have "P s'" by simp
  then have "P (snd (play_loop U s' ins))" by (rule Cons.IH)
  with t Cons.prems \<open>P s'\<close> show ?case
    by (cases e) (simp_all split: sum.splits)
qed

declare play_loop.simps [simp del]

text \<open>
  \<^verbatim>\<open>wrong_attempts\<close> never decreases, so from a count that is not negative the display at
  the head of each iteration finds its picture and the loop raises nothing.
\<close>

lemma turn_keeps_nonneg: "0 \<le> wrong_attempts s \<Longrightarrow> 0 \<le> wrong_attempts (snd (turn U s inp))"
  using turn_wrong_attempts_mono [of s U inp] by simp

lemma play_loop_never_raises:
  "0 \<le> wrong_attempts s \<Longrightarrow> fst (play_loop U s ins) \<noteq> Raised e"
proof (induction ins arbitrary: s)
  case Nil
  then show ?case by (simp add: play_loop_Nil round_status_def)
next
  case (Cons inp ins)
  obtain ev s' where t: "turn U s inp = (ev, s')" by (cases "turn U s inp")
  with turn_keeps_nonneg [OF Cons.prems, of U inp] have "0 \<le> wrong_attempts s'" by simp
  then have IH: "fst (play_loop U s' ins) \<noteq> Raised e" by (rule Cons.IH)
  show ?case
  proof (cases "round_status s = InProgress")
    case False
    with Cons.prems show ?thesis by (simp add: play_loop_over round_status_def split: if_splits)
  next
    case True
    show ?thesis
    proof (cases "ev = Quit")
      case True
      with Cons.prems \<open>round_status s = InProgress\<close> t show ?thesis by (simp add: play_loop_quit)
    next
      case False
      with Cons.prems \<open>round_status s = InProgress\<close> t IH show ?thesis by (simp add: play_loop_step)
    qed
  qed
qed

text \<open>
  The scenario of the specification: category fruits, difficulty hard, the word drawn is
  mango, no score file yet, and the lines m, a, n, g, o win the round with the score 150,
  which is saved.
\<close>

lemma play_hangman_mango:
  "play_hangman no_high_letters (Fails FileNotFoundError) ''fruits'' ''hard'' 2
     [(0, str ''m''), (0, str ''a''), (0, str ''n''), (0, str ''g''), (0, str ''o'')]
     = Inr (Won, Some 150, Holds (JDict [(''easy'', JInt 0), (''medium'', JInt 0), (''hard'', JInt 150)]))"
  by code_simp

section \<open>Scoring\<close>

text \<open>
  Claim C1. \<^verbatim>\<open>calculate_score\<close> is a function of its three arguments alone, and for the three
  difficulties it is \<open>max 0 (word_length * 10 - wrong_attempts * 5)\<close> times 1 (easy),
  2 (medium) or 3 (hard): the floor at zero is taken before the multiplication. In
  particular it gives 50 for (easy, 5, 0), 80 for (medium, 5, 2) and 0 for (hard, 3, 10).
\<close>

theorem calculate_score_formula:
  "calculate_score ''easy'' n k = Inr (max 0 (n * 10 - k * 5) * 1)
   \<and> calculate_score ''medium'' n k = Inr (max 0 (n * 10 - k * 5) * 2)
   \<and> calculate_score ''hard'' n k = Inr (max 0 (n * 10 - k * 5) * 3)
   \<and> calculate_score ''easy'' 5 0 = Inr 50
   \<and> calculate_score ''medium'' 5 2 = Inr 80
   \<and> calculate_score ''hard'' 3 10 = Inr 0"
  by (simp add: calculate_score_def difficulty_multiplier_def)

section \<open>The count of wrong guesses\<close>

lemma submit_guess_count_invariant:
  assumes "count_invariant s"
  shows "count_invariant (snd (submit_guess U s g))"
proof -
  let ?W = "\<lambda>G. {x \<in> G. \<not> str_in x (word s)}"
  from assms have fin: "finite (guessed_letters s)"
    and cnt: "wrong_attempts s = int (card (?W (guessed_letters s)))"
    by (simp_all add: count_invariant_def)
  consider (reject) "snd (submit_guess U s g) = s"
    | (good) "g \<notin> guessed_letters s" "str_in g (word s)"
        "snd (submit_guess U s g) = s\<lparr>guessed_letters := insert g (guessed_letters s)\<rparr>"
    | (wrong) "g \<notin> guessed_letters s" "\<not> str_in g (word s)"
        "snd (submit_guess U s g) = s\<lparr>guessed_letters := insert g (guessed_letters s),
                                        wrong_attempts := wrong_attempts s + 1\<rparr>"
    using submit_guess_cases [of U s g] by fastforce
  then show ?thesis
  proof cases
    case reject
    with assms show ?thesis by simp
  next
    case good
    then have "?W (insert g (guessed_letters s)) = ?W (guessed_letters s)" by auto
    with good fin cnt show ?thesis by (simp add: count_invariant_def)
  next
    case wrong
    then have eq: "?W (insert g (guessed_letters s)) = insert g (?W (guessed_letters s))" by auto
    from wrong fin have "card (insert g (?W (guessed_letters s))) = Suc (card (?W (guessed_letters s)))"
      by simp
    with wrong fin cnt eq show ?thesis by (simp add: count_invariant_def)
  qed
qed

lemma turn_count_invariant:
  assumes "count_invariant s"
  shows "count_invariant (snd (turn U s inp))"
proof -
  have "count_invariant (s\<lparr>hint_used := True\<rparr>)"
    using assms by (simp add: count_invariant_def)
  with assms submit_guess_count_invariant [OF assms] show ?thesis
    by (simp add: turn_def Let_def)
qed

text \<open>
  Claim C2. In a round that starts with no guessed letter and \<^verbatim>\<open>wrong_attempts = 0\<close>, after
  any sequence of input lines \<^verbatim>\<open>wrong_attempts\<close> equals the number of guessed letters that do
  not occur in the word: the invariant holds at the start, in the state that the loop
  reaches on the lines \<open>ins\<close>, and after one more line from there.
\<close>

theorem wrong_attempts_counts_wrong_guesses:
  assumes "guessed_letters s = {}" and "wrong_attempts s = 0"
  shows "count_invariant s
         \<and> count_invariant (snd (play_loop U s ins))
         \<and> count_invariant (snd (turn U (snd (play_loop U s ins)) inp))"
proof -
  from assms have start: "count_invariant s" by (simp add: count_invariant_def)
  then have "count_invariant (snd (play_loop U s ins))"
    by (rule play_loop_keeps [where P = count_invariant, rotated]) (rule turn_count_invariant)
  with start show ?thesis by (simp add: turn_count_invariant)
qed

theorem wrong_attempts_counts_wrong_guesses_witness:
  "guessed_letters (new_round ''hard'' (4, False) (str ''mango'')) = {}
   \<and> wrong_attempts (new_round ''hard'' (4, False) (str ''mango'')) = 0
   \<and> count_invariant (snd (play_loop no_high_letters (new_round ''hard'' (4, False) (str ''mango''))
        [(0, str ''m''), (0, str ''x''), (0, str ''?''), (0, str ''x''), (0, str ''zz''),
         (0, str ''q'')]))
   \<and> guessed_letters (snd (play_loop no_high_letters (new_round ''hard'' (4, False) (str ''mango''))
        [(0, str ''m''), (0, str ''x''), (0, str ''?''), (0, str ''x''), (0, str ''zz''),
         (0, str ''q'')])) = {str ''m'', str ''x'', str ''q''}
   \<and> wrong_attempts (snd (play_loop no_high_letters (new_round ''hard'' (4, False) (str ''mango''))
        [(0, str ''m''), (0, str ''x''), (0, str ''?''), (0, str ''x''), (0, str ''zz''),
         (0, str ''q'')])) = 2"
proof -
  let ?s = "new_round ''hard'' (4, False) (str ''mango'')"
  let ?ins = "[(0 :: nat, str ''m''), (0, str ''x''), (0, str ''?''), (0, str ''x''),
               (0, str ''zz''), (0, str ''q'')]"
  have h1: "guessed_letters ?s = {}" and h2: "wrong_attempts ?s = 0"
    by (simp_all add: new_round_def)
  have run: "guessed_letters (snd (play_loop no_high_letters ?s ?ins)) = {str ''m'', str ''x'', str ''q''}
             \<and> wrong_attempts (snd (play_loop no_high_letters ?s ?ins)) = 2"
    by code_simp
  from wrong_attempts_counts_wrong_guesses [OF h1 h2, of no_high_letters ?ins] h1 h2 run
  show ?thesis by simp
qed

section \<open>Losing the round\<close>

lemma turn_wrong_letter:
  assumes "wrong_letter U (word s) x" and "lower U x \<notin> guessed_letters s"
  shows "turn U s (r, x) = (WrongGuess, s\<lparr>guessed_letters := insert (lower U x) (guessed_letters s),
                                          wrong_attempts := wrong_attempts s + 1\<rparr>)"
  using assms by (simp add: wrong_letter_def turn_letter submit_guess_def)

lemma wrong_letter_not_in_word:
  assumes "wrong_letter U w x"
  shows "lower U x \<notin> set (letters w)"
proof -
  from assms obtain c where c: "lower U x = [c]" and "\<not> str_in [c] w"
    by (cases "lower U x") (auto simp: wrong_letter_def)
  then have "c \<notin> set w" by (simp add: str_in_letter)
  with c show ?thesis by (auto simp: letters_def)
qed

lemma not_won_insert_wrong:
  assumes "wrong_letter U w x" and "\<not> list_all (\<lambda>l. l \<in> G) (letters w)"
  shows "\<not> list_all (\<lambda>l. l \<in> insert (lower U x) G) (letters w)"
proof -
  from assms(1) have "lower U x \<notin> set (letters w)" by (rule wrong_letter_not_in_word)
  then have "list_all (\<lambda>l. l \<in> insert (lower U x) G) (letters w) = list_all (\<lambda>l. l \<in> G) (letters w)"
    by (auto simp: list_all_iff)
  with assms(2) show ?thesis by simp
qed

lemma wrong_run:
  assumes "list_all (\<lambda>inp. wrong_letter U (word s) (snd inp)) ins"
    and "distinct (map (\<lambda>inp. lower U (snd inp)) ins)"
    and "list_all (\<lambda>inp. lower U (snd inp) \<notin> guessed_letters s) ins"
    and "\<not> list_all (\<lambda>l. l \<in> guessed_letters s) (letters (word s))"
    and "wrong_attempts s + int (length ins) \<le> max_wrong s"
    and "0 \<le> wrong_attempts s"
  shows "play_loop U s ins =
           (if wrong_attempts s + int (length ins) = max_wrong s then Lost else InProgress,
            s\<lparr>guessed_letters := guessed_letters s \<union> set (map (\<lambda>inp. lower U (snd inp)) ins),
              wrong_attempts := wrong_attempts s + int (length ins)\<rparr>)"
  using assms
proof (induction ins arbitrary: s)
  case Nil
  then show ?case by (auto simp: play_loop_Nil round_status_def)
next
  case (Cons inp ins)
  obtain r x where inp: "inp = (r, x)" by (cases inp)
  let ?s = "s\<lparr>guessed_letters := insert (lower U x) (guessed_letters s),
                wrong_attempts := wrong_attempts s + 1\<rparr>"
  from Cons.prems(4,5) have open_round: "round_status s = InProgress"
    by (simp add: round_status_def)
  from Cons.prems(1,3) inp have t: "turn U s inp = (WrongGuess, ?s)"
    by (simp add: turn_wrong_letter)
  have "play_loop U ?s ins =
          (if wrong_attempts ?s + int (length ins) = max_wrong ?s then Lost else InProgress,
           ?s\<lparr>guessed_letters := guessed_letters ?s \<union> set (map (\<lambda>inp. lower U (snd inp)) ins),
              wrong_attempts := wrong_attempts ?s + int (length ins)\<rparr>)"
  proof (rule Cons.IH)
    from Cons.prems(1) show "list_all (\<lambda>inp. wrong_letter U (word ?s) (snd inp)) ins" by simp
    from Cons.prems(2) show "distinct (map (\<lambda>inp. lower U (snd inp)) ins)" by simp
    from Cons.prems(2) inp have "\<forall>j \<in> set ins. lower U (snd j) \<noteq> lower U x" by force
    with Cons.prems(3) show "list_all (\<lambda>inp. lower U (snd inp) \<notin> guessed_letters ?s) ins"
      by (simp add: list_all_iff)
    from Cons.prems(1) inp have "wrong_letter U (word s) x" by simp
    from not_won_insert_wrong [OF this Cons.prems(4)]
    show "\<not> list_all (\<lambda>l. l \<in> guessed_letters ?s) (letters (word ?s))"
      by simp
    from Cons.prems(5) show "wrong_attempts ?s + int (length ins) \<le> max_wrong ?s" by simp
    from Cons.prems(6) show "0 \<le> wrong_attempts ?s" by simp
  qed
  moreover from Cons.prems(6) open_round t have "play_loop U s (inp # ins) = play_loop U ?s ins"
    by (simp add: play_loop_step)
  ultimately show ?case using inp by (simp add: add.assoc)
qed

text \<open>
  Lines typed before a run: when the loop on the lines \<open>pre\<close> is still open in the state
  \<open>s\<close>, the loop on \<open>pre\<close> followed by more lines goes on from \<open>s\<close>.
\<close>

lemma play_loop_append:
  "play_loop U s0 pre = (InProgress, s) \<Longrightarrow> play_loop U s0 (pre @ ins) = play_loop U s ins"
proof (induction pre arbitrary: s0)
  case Nil
  then have "s = s0"
    by (auto simp: play_loop.simps split: sum.splits)
  then show ?case by simp
next
  case (Cons p pre)
  obtain e s' where t: "turn U s0 p = (e, s')" by (cases "turn U s0 p")
  from Cons.prems t have shown: "\<exists>pic. display_game_state (wrong_attempts s0) = Inr pic"
    and open_round: "round_status s0 = InProgress"
    by (auto simp: play_loop.simps split: sum.splits if_splits)
  from Cons.prems t shown open_round have go: "e \<noteq> Quit"
    by (auto simp: play_loop.simps)
  with Cons.prems t shown open_round have "play_loop U s' pre = (InProgress, s)"
    by (cases e) (auto simp: play_loop.simps)
  then have "play_loop U s' (pre @ ins) = play_loop U s ins" by (rule Cons.IH)
  with t shown open_round go show ?case
    by (cases e) (auto simp: play_loop.simps)
qed

text \<open>
  Claim C3. A round is open in a state \<open>s\<close> (some letter of the word is not guessed, and
  the count of wrong guesses is not negative), and the player types in a row as many
  distinct incorrect letters, none guessed before, as bring \<^verbatim>\<open>wrong_attempts\<close> to
  \<^verbatim>\<open>max_wrong\<close>: from a count of zero these are \<^verbatim>\<open>max_wrong\<close> letters. Then after each
  proper prefix of \<open>k\<close> of these lines the round is still in progress, with \<open>k\<close> more
  wrong attempts, and after the last line the round is lost with
  \<^verbatim>\<open>wrong_attempts = max_wrong\<close>. The same holds for the whole round when other lines
  \<open>pre\<close>, good guesses among them, were typed before and led to \<open>s\<close>. In no state at all
  does the loss check fire while \<^verbatim>\<open>wrong_attempts\<close> is below \<^verbatim>\<open>max_wrong\<close>.
\<close>

theorem lost_exactly_at_max_wrong:
  assumes "\<not> list_all (\<lambda>l. l \<in> guessed_letters s) (letters (word s))"
    and "0 \<le> wrong_attempts s"
    and "list_all (\<lambda>inp. wrong_letter U (word s) (snd inp)) ins"
    and "distinct (map (\<lambda>inp. lower U (snd inp)) ins)"
    and "list_all (\<lambda>inp. lower U (snd inp) \<notin> guessed_letters s) ins"
    and "wrong_attempts s + int (length ins) = max_wrong s"
  shows "(\<forall>k < length ins. fst (play_loop U s (take k ins)) = InProgress
            \<and> wrong_attempts (snd (play_loop U s (take k ins))) = wrong_attempts s + int k)
         \<and> fst (play_loop U s ins) = Lost
         \<and> wrong_attempts (snd (play_loop U s ins)) = max_wrong s
         \<and> (\<forall>s0 pre. play_loop U s0 pre = (InProgress, s) \<longrightarrow>
               (\<forall>k < length ins. fst (play_loop U s0 (pre @ take k ins)) = InProgress)
               \<and> fst (play_loop U s0 (pre @ ins)) = Lost
               \<and> wrong_attempts (snd (play_loop U s0 (pre @ ins))) = max_wrong s)
         \<and> (\<forall>t. round_status t = Lost \<longrightarrow> max_wrong t \<le> wrong_attempts t)"
proof -
  have run: "play_loop U s (take k ins) =
               (if wrong_attempts s + int (length (take k ins)) = max_wrong s then Lost else InProgress,
                s\<lparr>guessed_letters := guessed_letters s \<union> set (map (\<lambda>inp. lower U (snd inp)) (take k ins)),
                  wrong_attempts := wrong_attempts s + int (length (take k ins))\<rparr>)" for k
  proof (rule wrong_run [OF _ _ _ assms(1) _ assms(2)])
    from assms(3) show "list_all (\<lambda>inp. wrong_letter U (word s) (snd inp)) (take k ins)"
      by (auto simp: list_all_iff dest: in_set_takeD)
    from assms(4) show "distinct (map (\<lambda>inp. lower U (snd inp)) (take k ins))"
      by (simp add: take_map [symmetric])
    from assms(5) show "list_all (\<lambda>inp. lower U (snd inp) \<notin> guessed_letters s) (take k ins)"
      by (auto simp: list_all_iff dest: in_set_takeD)
    from assms(6) show "wrong_attempts s + int (length (take k ins)) \<le> max_wrong s" by simp
  qed
  have early: "fst (play_loop U s (take k ins)) = InProgress
               \<and> wrong_attempts (snd (play_loop U s (take k ins))) = wrong_attempts s + int k"
    if "k < length ins" for k
    using that assms(6) by (simp add: run)
  from run [of "length ins"] assms(6)
  have final: "fst (play_loop U s ins) = Lost \<and> wrong_attempts (snd (play_loop U s ins)) = max_wrong s"
    by simp
  have whole: "(\<forall>k < length ins. fst (play_loop U s0 (pre @ take k ins)) = InProgress)
               \<and> fst (play_loop U s0 (pre @ ins)) = Lost
               \<and> wrong_attempts (snd (play_loop U s0 (pre @ ins))) = max_wrong s"
    if "play_loop U s0 pre = (InProgress, s)" for s0 pre
    using early final by (simp add: play_loop_append [OF that])
  have "max_wrong t \<le> wrong_attempts t" if "round_status t = Lost" for t
    using that by (simp add: round_status_def split: if_splits)
  with early final whole show ?thesis by blast
qed

theorem lost_exactly_at_max_wrong_witness:
  "play_loop no_high_letters (new_round ''hard'' (4, False) (str ''mango'')) [(0, str ''m'')]
     = (InProgress, new_round ''hard'' (4, False) (str ''mango'')\<lparr>guessed_letters := {str ''m''}\<rparr>)
   \<and> max_wrong (new_round ''hard'' (4, False) (str ''mango'')\<lparr>guessed_letters := {str ''m''}\<rparr>) = 4
   \<and> fst (play_loop no_high_letters (new_round ''hard'' (4, False) (str ''mango''))
        [(0, str ''m''), (0, str ''x''), (0, str ''Y''), (0, str ''z'')]) = InProgress
   \<and> fst (play_loop no_high_letters (new_round ''hard'' (4, False) (str ''mango''))
        [(0, str ''m''), (0, str ''x''), (0, str ''Y''), (0, str ''z''), (0, str ''q'')]) = Lost
   \<and> wrong_attempts (snd (play_loop no_high_letters (new_round ''hard'' (4, False) (str ''mango''))
        [(0, str ''m''), (0, str ''x''), (0, str ''Y''), (0, str ''z''), (0, str ''q'')])) = 4"
proof -
  let ?U = no_high_letters
  let ?start = "new_round ''hard'' (4, False) (str ''mango'')"
  let ?s = "?start\<lparr>guessed_letters := {str ''m''}\<rparr>"
  let ?pre = "[(0 :: nat, str ''m'')]"
  let ?ins = "[(0 :: nat, str ''x''), (0, str ''Y''), (0, str ''z''), (0, str ''q'')]"
  have before: "play_loop ?U ?start ?pre = (InProgress, ?s)" by code_simp
  have h1: "\<not> list_all (\<lambda>l. l \<in> guessed_letters ?s) (letters (word ?s))" by code_simp
  have h2: "0 \<le> wrong_attempts ?s" and h6: "wrong_attempts ?s + int (length ?ins) = max_wrong ?s"
    and mw: "max_wrong ?s = 4"
    by (simp_all add: new_round_def)
  have h3: "list_all (\<lambda>inp. wrong_letter ?U (word ?s) (snd inp)) ?ins" by code_simp
  have h4: "distinct (map (\<lambda>inp. lower ?U (snd inp)) ?ins)" by code_simp
  have h5: "list_all (\<lambda>inp. lower ?U (snd inp) \<notin> guessed_letters ?s) ?ins" by code_simp
  note run = lost_exactly_at_max_wrong [OF h1 h2 h3 h4 h5 h6]
  from run have "\<forall>s0 pre. play_loop ?U s0 pre = (InProgress, ?s) \<longrightarrow>
               (\<forall>k < length ?ins. fst (play_loop ?U s0 (pre @ take k ?ins)) = InProgress)
               \<and> fst (play_loop ?U s0 (pre @ ?ins)) = Lost
               \<and> wrong_attempts (snd (play_loop ?U s0 (pre @ ?ins))) = max_wrong ?s"
    by blast
  from this [rule_format, OF before]
  have early: "\<forall>k < length ?ins. fst (play_loop ?U ?start (?pre @ take k ?ins)) = InProgress"
    and final: "fst (play_loop ?U ?start (?pre @ ?ins)) = Lost"
      "wrong_attempts (snd (play_loop ?U ?start (?pre @ ?ins))) = max_wrong ?s"
    by blast+
  from early [rule_format, of 3] have "fst (play_loop ?U ?start (?pre @ take 3 ?ins)) = InProgress"
    by simp
  with before mw final show ?thesis by simp
qed

section \<open>Refused guesses\<close>

text \<open>
  Claim C4. The validation of a guess refuses, with the state returned as it was, every
  string that is not exactly one alphabetic character (the empty string, a string of two
  or more characters, one character that is not a letter) and every letter that is in
  \<^verbatim>\<open>guessed_letters\<close> already. The first refusal is the branch ``Please enter a single
  letter'', the second the branch ``You've already guessed that letter''. The commands
  \<^verbatim>\<open>!\<close> and \<^verbatim>\<open>?\<close> are taken by the loop before the validation and are not guesses.
\<close>

theorem submit_guess_rejects:
  "(\<not> isalpha U g \<or> length g \<noteq> 1 \<longrightarrow> submit_guess U s g = (NotSingleLetter, s))
   \<and> (isalpha U g \<and> length g = 1 \<and> g \<in> guessed_letters s \<longrightarrow>
        submit_guess U s g = (AlreadyGuessed, s))
   \<and> submit_guess U s [] = (NotSingleLetter, s)
   \<and> submit_guess U s (c # d # g') = (NotSingleLetter, s)
   \<and> (\<not> isalpha_chr U c \<longrightarrow> submit_guess U s [c] = (NotSingleLetter, s))"
  by (simp add: submit_guess_def isalpha_def)

theorem submit_guess_rejects_witness:
  "submit_guess no_high_letters
      (new_round ''hard'' (4, False) (str ''mango'')\<lparr>guessed_letters := {str ''m''}\<rparr>) (str ''7'')
     = (NotSingleLetter, new_round ''hard'' (4, False) (str ''mango'')\<lparr>guessed_letters := {str ''m''}\<rparr>)
   \<and> submit_guess no_high_letters
      (new_round ''hard'' (4, False) (str ''mango'')\<lparr>guessed_letters := {str ''m''}\<rparr>) (str ''m'')
     = (AlreadyGuessed, new_round ''hard'' (4, False) (str ''mango'')\<lparr>guessed_letters := {str ''m''}\<rparr>)
   \<and> submit_guess no_high_letters
      (new_round ''hard'' (4, False) (str ''mango'')\<lparr>guessed_letters := {str ''m''}\<rparr>) (str '''')
     = (NotSingleLetter, new_round ''hard'' (4, False) (str ''mango'')\<lparr>guessed_letters := {str ''m''}\<rparr>)
   \<and> submit_guess no_high_letters
      (new_round ''hard'' (4, False) (str ''mango'')\<lparr>guessed_letters := {str ''m''}\<rparr>) (str ''ab'')
     = (NotSingleLetter, new_round ''hard'' (4, False) (str ''mango'')\<lparr>guessed_letters := {str ''m''}\<rparr>)"
proof -
  let ?U = no_high_letters
  let ?s = "new_round ''hard'' (4, False) (str ''mango'')\<lparr>guessed_letters := {str ''m''}\<rparr>"
  have digit: "\<not> isalpha ?U (str ''7'')" by code_simp
  have m: "isalpha ?U (str ''m'') \<and> length (str ''m'') = 1 \<and> str ''m'' \<in> guessed_letters ?s"
    by code_simp
  have lits: "str '''' = []" "str ''ab'' = [97, 98]" by (simp_all add: str_def)
  from submit_guess_rejects [of ?U "str ''7''" ?s] digit
  have "submit_guess ?U ?s (str ''7'') = (NotSingleLetter, ?s)" by blast
  moreover from submit_guess_rejects [of ?U "str ''m''" ?s] m
  have "submit_guess ?U ?s (str ''m'') = (AlreadyGuessed, ?s)" by blast
  moreover from submit_guess_rejects [of ?U _ ?s 97 98 "[]"]
  have "submit_guess ?U ?s [] = (NotSingleLetter, ?s)"
    and "submit_guess ?U ?s [97, 98] = (NotSingleLetter, ?s)"
    by blast+
  ultimately show ?thesis by (simp only: lits) 
qed

section \<open>The hint\<close>

lemma random_choice_in_set: "xs \<noteq> [] \<Longrightarrow> random_choice r xs \<in> set xs"
  by (simp add: random_choice_def)

lemma get_hint_None: "get_hint r w G = None \<longleftrightarrow> list_all (\<lambda>l. l \<in> G) (letters w)"
  by (auto simp: get_hint_def Let_def filter_empty_conv list_all_iff)

lemma get_hint_Some:
  assumes "get_hint r w G = Some l"
  shows "l \<in> set (letters w) \<and> l \<notin> G"
proof -
  let ?ng = "filter (\<lambda>letter. letter \<notin> G) (letters w)"
  from assms have ne: "?ng \<noteq> []" and l: "l = random_choice r ?ng"
    by (auto simp: get_hint_def Let_def split: if_splits)
  from ne have "random_choice r ?ng \<in> set ?ng" by (rule random_choice_in_set)
  with l have "l \<in> set ?ng" by simp
  then show ?thesis by simp
qed

text \<open>
  Claim C5, as amended. When the difficulty allows the hint and it has not been used, the
  line \<^verbatim>\<open>?\<close> asks \<^verbatim>\<open>get_hint\<close>, which returns a letter of the word that is not in
  \<^verbatim>\<open>guessed_letters\<close>, or \<^verbatim>\<open>None\<close> exactly when every letter of the word is guessed;
  \<^verbatim>\<open>hint_used\<close> becomes true whatever was returned. From then on, whatever lines \<open>ins\<close>
  the round goes through, a further \<^verbatim>\<open>?\<close> gives no hint and leaves the state as it is:
  the line falls through to the validation of the guess and is refused there as not a
  single letter, which is the refusal of any malformed guess. The source has no outcome
  of its own for a hint that is not available.
\<close>

theorem hint_once_per_round:
  assumes "hint s" and "\<not> hint_used s"
  shows "turn U s (r, str ''?'')
           = (Hinted (get_hint r (word s) (guessed_letters s)), s\<lparr>hint_used := True\<rparr>)
         \<and> (get_hint r (word s) (guessed_letters s) = None
              \<longleftrightarrow> list_all (\<lambda>l. l \<in> guessed_letters s) (letters (word s)))
         \<and> (\<forall>l. get_hint r (word s) (guessed_letters s) = Some l
              \<longrightarrow> l \<in> set (letters (word s)) \<and> l \<notin> guessed_letters s)
         \<and> turn U (snd (play_loop U (s\<lparr>hint_used := True\<rparr>) ins)) (r', str ''?'')
             = (NotSingleLetter, snd (play_loop U (s\<lparr>hint_used := True\<rparr>) ins))
         \<and> turn U (snd (play_loop U (s\<lparr>hint_used := True\<rparr>) ins)) (r', str ''?'')
             = submit_guess U (snd (play_loop U (s\<lparr>hint_used := True\<rparr>) ins)) (str ''?'')"
proof -
  let ?later = "snd (play_loop U (s\<lparr>hint_used := True\<rparr>) ins)"
  have "str ''?'' \<noteq> str ''!''" by (simp add: str_def)
  with assms have "turn U s (r, str ''?'') =
      (Hinted (get_hint r (word s) (guessed_letters s)), s\<lparr>hint_used := True\<rparr>)"
    by (simp add: turn_def Let_def lower_question)
  moreover have used: "hint_used ?later"
    by (rule play_loop_keeps [where P = hint_used, rotated]) (simp_all add: turn_hint_used)
  then have refused: "turn U ?later (r', str ''?'') = (NotSingleLetter, ?later)"
    by (simp add: turn_hint_refused)
  moreover have "\<not> isalpha U (str ''?'')" using isalpha_not_command [of U "str ''?''"] by blast
  then have "submit_guess U ?later (str ''?'') = (NotSingleLetter, ?later)"
    by (simp add: submit_guess_def)
  ultimately show ?thesis
    by (simp add: get_hint_None get_hint_Some)
qed

theorem hint_once_per_round_witness:
  "hint (new_round ''easy'' (8, True) (str ''kiwi''))
   \<and> hint_used (new_round ''easy'' (8, True) (str ''kiwi'')) = False
   \<and> turn no_high_letters (new_round ''easy'' (8, True) (str ''kiwi'')) (6, str ''?'')
       = (Hinted (Some (str ''w'')), new_round ''easy'' (8, True) (str ''kiwi'')\<lparr>hint_used := True\<rparr>)
   \<and> turn no_high_letters
        (snd (play_loop no_high_letters
               (new_round ''easy'' (8, True) (str ''kiwi'')\<lparr>hint_used := True\<rparr>) [(0, str ''k'')]))
        (3, str ''?'')
       = (NotSingleLetter,
          new_round ''easy'' (8, True) (str ''kiwi'')
            \<lparr>hint_used := True, guessed_letters := {str ''k''}\<rparr>)"
proof -
  let ?U = no_high_letters
  let ?s = "new_round ''easy'' (8, True) (str ''kiwi'')"
  have h1: "hint ?s" and h2: "\<not> hint_used ?s" by (simp_all add: new_round_def)
  have pick: "get_hint 6 (word ?s) (guessed_letters ?s) = Some (str ''w'')" by code_simp
  have after: "snd (play_loop ?U (?s\<lparr>hint_used := True\<rparr>) [(0, str ''k'')])
               = ?s\<lparr>hint_used := True, guessed_letters := {str ''k''}\<rparr>"
    by code_simp
  from hint_once_per_round [OF h1 h2, of ?U 6 "[(0, str ''k'')]" 3] h1 h2 pick after
  show ?thesis by simp
qed

text \<open>
  The claim as it was stated has the second request fail with an outcome of its own. On
  the word kiwi at the easy difficulty, after the hint was served, the line \<^verbatim>\<open>?\<close> and
  the malformed guess \<^verbatim>\<open>7\<close> get the same answer.
\<close>

theorem second_hint_as_malformed_guess_counterexample:
  "turn no_high_letters (new_round ''easy'' (8, True) (str ''kiwi'')) (6, str ''?'')
     = (Hinted (Some (str ''w'')), new_round ''easy'' (8, True) (str ''kiwi'')\<lparr>hint_used := True\<rparr>)
   \<and> turn no_high_letters (new_round ''easy'' (8, True) (str ''kiwi'')\<lparr>hint_used := True\<rparr>)
        (3, str ''?'')
     = (NotSingleLetter, new_round ''easy'' (8, True) (str ''kiwi'')\<lparr>hint_used := True\<rparr>)
   \<and> turn no_high_letters (new_round ''easy'' (8, True) (str ''kiwi'')\<lparr>hint_used := True\<rparr>)
        (3, str ''7'')
     = (NotSingleLetter, new_round ''easy'' (8, True) (str ''kiwi'')\<lparr>hint_used := True\<rparr>)"
  by code_simp

section \<open>Loading the scores\<close>

lemma load_scores_raises:
  "load_scores st = Inl e \<longleftrightarrow> st = Fails e \<and> e \<noteq> FileNotFoundError \<and> e \<noteq> JSONDecodeError"
  by (cases st) (auto simp: load_scores_def)

text \<open>
  Claim C6, as amended. \<^verbatim>\<open>load_scores\<close> returns \<^verbatim>\<open>{'easy': 0, 'medium': 0, 'hard': 0}\<close>,
  and does not raise, when there is no file (\<^verbatim>\<open>FileNotFoundError\<close>) and when the text of
  the file is not JSON (\<^verbatim>\<open>JSONDecodeError\<close>); every difficulty then reads as 0. These are
  the two exceptions that it catches: it raises exactly when opening or decoding raises
  an exception of another class. When the file decodes, the decoded value is returned as
  it is: a difficulty reads as whatever the file has under that key, no key is added and
  no entry is defaulted.
\<close>

theorem load_scores_fallback:
  "(load_scores st = Inl e \<longleftrightarrow> st = Fails e \<and> e \<noteq> FileNotFoundError \<and> e \<noteq> JSONDecodeError)
   \<and> (st = Fails FileNotFoundError \<or> st = Fails JSONDecodeError \<longrightarrow>
        load_scores st = Inr (JDict [(''easy'', JInt 0), (''medium'', JInt 0), (''hard'', JInt 0)])
        \<and> stored st ''easy'' = Inr (JInt 0)
        \<and> stored st ''medium'' = Inr (JInt 0)
        \<and> stored st ''hard'' = Inr (JInt 0))
   \<and> load_scores (Holds v) = Inr v
   \<and> stored (Holds v) k = getitem v k"
proof -
  have "load_scores st = Inr (JDict [(''easy'', JInt 0), (''medium'', JInt 0), (''hard'', JInt 0)])
        \<and> stored st ''easy'' = Inr (JInt 0)
        \<and> stored st ''medium'' = Inr (JInt 0)
        \<and> stored st ''hard'' = Inr (JInt 0)"
    if "st = Fails FileNotFoundError \<or> st = Fails JSONDecodeError"
    using that by (auto simp: load_scores_def stored_def)
  moreover have "load_scores (Holds v) = Inr v" and "stored (Holds v) k = getitem v k"
    by (simp_all add: load_scores_def stored_def)
  ultimately show ?thesis using load_scores_raises [of st e] by blast
qed

theorem load_scores_fallback_witness:
  "load_scores (Fails JSONDecodeError)
     = Inr (JDict [(''easy'', JInt 0), (''medium'', JInt 0), (''hard'', JInt 0)])
   \<and> stored (Fails JSONDecodeError) ''easy'' = Inr (JInt 0)
   \<and> stored (Fails JSONDecodeError) ''medium'' = Inr (JInt 0)
   \<and> stored (Fails JSONDecodeError) ''hard'' = Inr (JInt 0)
   \<and> load_scores (Fails FileNotFoundError)
     = Inr (JDict [(''easy'', JInt 0), (''medium'', JInt 0), (''hard'', JInt 0)])"
  using load_scores_fallback [of "Fails JSONDecodeError"]
    load_scores_fallback [of "Fails FileNotFoundError"]
  by blast

text \<open>
  The claim as it was stated fails in both of its parts. A file whose JSON text is
  \<^verbatim>\<open>{"easy": 5}\<close> is loaded as it is, with no entry for medium and none for hard, and
  \<^verbatim>\<open>save_score\<close> on it raises \<^verbatim>\<open>KeyError\<close>. A file whose bytes are not text is a
  corrupted store, and \<^verbatim>\<open>load_scores\<close> raises \<^verbatim>\<open>UnicodeDecodeError\<close> on it.
\<close>

theorem load_scores_counterexample:
  "load_scores (Holds (JDict [(''easy'', JInt 5)])) = Inr (JDict [(''easy'', JInt 5)])
   \<and> stored (Holds (JDict [(''easy'', JInt 5)])) ''medium'' = Inl KeyError
   \<and> stored (Holds (JDict [(''easy'', JInt 5)])) ''hard'' = Inl KeyError
   \<and> save_score (Holds (JDict [(''easy'', JInt 5)])) ''medium'' 10 = Inl KeyError
   \<and> load_scores (Fails UnicodeDecodeError) = Inl UnicodeDecodeError"
  by (simp add: load_scores_def stored_def save_score_def)

section \<open>Saving a score\<close>

lemma getitem_InrD: "getitem v k = Inr x \<Longrightarrow> \<exists>kvs. v = JDict kvs \<and> map_of kvs k = Some x"
  by (cases v) (auto split: option.splits)

lemma stored_InrD:
  "stored st k = Inr x \<Longrightarrow> \<exists>kvs. load_scores st = Inr (JDict kvs) \<and> map_of kvs k = Some x"
  by (auto simp: stored_def split: sum.splits dest: getitem_InrD)

lemma stored_Holds: "stored (Holds (JDict kvs)) k = getitem (JDict kvs) k"
  by (simp add: stored_def load_scores_def)

text \<open>
  Claim C7. Let the value stored for the difficulty be the integer \<open>old\<close>. Then
  \<^verbatim>\<open>save_score\<close> returns whether \<open>old < score\<close>; when it returns true the file afterwards
  holds \<open>score\<close> for the difficulty, when it returns false the file is the same as
  before; in both cases the value stored afterwards is the greater of the two, and the
  entries of the other keys are as before. On a file that holds 40 for easy, saving 30
  returns false and 40 stays, and saving 50 returns true and stores 50.
\<close>

theorem save_score_strictly_greater:
  assumes "stored st dif = Inr (JInt old)"
  shows "\<exists>st'. save_score st dif score = Inr (old < score, st')
           \<and> (if old < score then stored st' dif = Inr (JInt score) else st' = st)
           \<and> stored st' dif = Inr (JInt (max old score))
           \<and> (\<forall>k. k \<noteq> dif \<longrightarrow> stored st' k = stored st k)"
proof -
  from assms obtain kvs where kvs: "load_scores st = Inr (JDict kvs)" "map_of kvs dif = Some (JInt old)"
    by (auto dest: stored_InrD)
  show ?thesis
  proof (cases "old < score")
    case True
    with kvs have "save_score st dif score = Inr (True, Holds (JDict (AList.update dif (JInt score) kvs)))"
      by (simp add: save_score_def)
    moreover have "stored st k = getitem (JDict kvs) k" for k
      by (simp add: stored_def kvs(1))
    ultimately show ?thesis
      using True by (simp add: stored_Holds update_conv' max_def)
  next
    case False
    with kvs have "save_score st dif score = Inr (False, st)"
      by (simp add: save_score_def)
    with False assms show ?thesis
      by (simp add: max_def)
  qed
qed

theorem save_score_strictly_greater_witness:
  "stored (Fails FileNotFoundError) ''easy'' = Inr (JInt 0)
   \<and> save_score (Fails FileNotFoundError) ''easy'' 40
       = Inr (True, Holds (JDict [(''easy'', JInt 40), (''medium'', JInt 0), (''hard'', JInt 0)]))
   \<and> save_score (Holds (JDict [(''easy'', JInt 40), (''medium'', JInt 0), (''hard'', JInt 0)])) ''easy'' 30
       = Inr (False, Holds (JDict [(''easy'', JInt 40), (''medium'', JInt 0), (''hard'', JInt 0)]))
   \<and> save_score (Holds (JDict [(''easy'', JInt 40), (''medium'', JInt 0), (''hard'', JInt 0)])) ''easy'' 50
       = Inr (True, Holds (JDict [(''easy'', JInt 50), (''medium'', JInt 0), (''hard'', JInt 0)]))"
proof -
  let ?st = "Holds (JDict [(''easy'', JInt 40), (''medium'', JInt 0), (''hard'', JInt 0)])"
  have h0: "stored (Fails FileNotFoundError) ''easy'' = Inr (JInt 0)"
    and h1: "stored ?st ''easy'' = Inr (JInt 40)"
    by (simp_all add: stored_def load_scores_def)
  from save_score_strictly_greater [OF h1, of 30]
  have "save_score ?st ''easy'' 30 = Inr (False, ?st)" by auto
  moreover have "save_score (Fails FileNotFoundError) ''easy'' 40 = Inr (True, ?st)"
    and "save_score ?st ''easy'' 50
       = Inr (True, Holds (JDict [(''easy'', JInt 50), (''medium'', JInt 0), (''hard'', JInt 0)]))"
    by (simp_all add: save_score_def load_scores_def)
  ultimately show ?thesis using h0 by simp
qed

section \<open>Winning comes first\<close>

text \<open>
  Claim C8. In every state in which all letters of the word are guessed (and
  \<^verbatim>\<open>wrong_attempts\<close> is not negative) the checks at the head of the loop report a win,
  and the loop ends as won without reading a line, also when \<^verbatim>\<open>wrong_attempts\<close> has
  reached \<^verbatim>\<open>max_wrong\<close>: the witness is such a state.
\<close>

theorem win_checked_before_loss:
  assumes "list_all (\<lambda>letter. letter \<in> guessed_letters s) (letters (word s))"
    and "0 \<le> wrong_attempts s"
  shows "round_status s = Won \<and> play_loop U s ins = (Won, s)"
proof -
  from assms(1) have "round_status s = Won" by (simp add: round_status_def)
  with assms(2) show ?thesis by (simp add: play_loop_over)
qed

theorem win_checked_before_loss_witness:
  "max_wrong (new_round ''hard'' (4, False) (str ''kiwi'')\<lparr>guessed_letters := {str ''k'', str ''i'', str ''w'', str ''a'', str ''b'', str ''c'', str ''d''},
                 wrong_attempts := 4\<rparr>)
     \<le> wrong_attempts (new_round ''hard'' (4, False) (str ''kiwi'')\<lparr>guessed_letters := {str ''k'', str ''i'', str ''w'', str ''a'', str ''b'', str ''c'', str ''d''},
                 wrong_attempts := 4\<rparr>)
   \<and> play_loop no_high_letters (new_round ''hard'' (4, False) (str ''kiwi'')\<lparr>guessed_letters := {str ''k'', str ''i'', str ''w'', str ''a'', str ''b'', str ''c'', str ''d''},
                 wrong_attempts := 4\<rparr>) [(0, str ''z'')]
     = (Won, new_round ''hard'' (4, False) (str ''kiwi'')\<lparr>guessed_letters := {str ''k'', str ''i'', str ''w'', str ''a'', str ''b'', str ''c'', str ''d''},
                 wrong_attempts := 4\<rparr>)"
proof -
  let ?s = "new_round ''hard'' (4, False) (str ''kiwi'')\<lparr>guessed_letters := {str ''k'', str ''i'', str ''w'', str ''a'', str ''b'', str ''c'', str ''d''},
                 wrong_attempts := 4\<rparr>"
  have h1: "list_all (\<lambda>letter. letter \<in> guessed_letters ?s) (letters (word ?s))"
    by code_simp
  have h2: "0 \<le> wrong_attempts ?s" and both: "max_wrong ?s \<le> wrong_attempts ?s"
    by (simp_all add: new_round_def)
  from win_checked_before_loss [OF h1 h2, of no_high_letters "[(0, str ''z'')]"] both show ?thesis by simp
qed

section \<open>The picture displayed\<close>

text \<open>
  Claim C9. For every \<^verbatim>\<open>wrong_attempts\<close> that is not negative, \<^verbatim>\<open>display_game_state\<close>
  subscripts \<^verbatim>\<open>hangman_pics\<close> at \<open>min wrong_attempts 6\<close>, which is inside the list of
  seven pictures, so the subscript does not raise; and the loop, which displays the state
  at the head of every iteration, raises nothing from a count that is not negative. The
  witness is the easy difficulty, whose eight wrong guesses exceed the seven pictures.
\<close>

theorem display_game_state_in_bounds:
  "(0 \<le> wrong \<longrightarrow>
      hangman_stage wrong = min wrong 6
      \<and> 0 \<le> hangman_stage wrong \<and> hangman_stage wrong < int (length hangman_pics)
      \<and> display_game_state wrong = Inr (hangman_pics ! nat (min wrong 6)))
   \<and> (0 \<le> wrong_attempts s \<longrightarrow> fst (play_loop U s ins) \<noteq> Raised e)"
  by (auto simp: display_game_state_nonneg play_loop_never_raises hangman_stage_def
      length_hangman_pics)

theorem display_game_state_in_bounds_witness:
  "map_of difficulty_levels ''easy'' = Some (8, True)
   \<and> length hangman_pics = 7
   \<and> hangman_stage 8 = 6
   \<and> display_game_state 8 = Inr (hangman_pics ! 6)
   \<and> play_loop no_high_letters (new_round ''easy'' (8, True) (str ''kiwi''))
        [(0, str ''a''), (0, str ''b''), (0, str ''c''), (0, str ''d''), (0, str ''e''), (0, str ''f''), (0, str ''g''), (0, str ''h'')]
      = (Lost, new_round ''easy'' (8, True) (str ''kiwi'')
           \<lparr>guessed_letters := {str ''a'', str ''b'', str ''c'', str ''d'', str ''e'', str ''f'', str ''g'', str ''h''}, wrong_attempts := 8\<rparr>)"
proof -
  let ?s = "new_round ''easy'' (8, True) (str ''kiwi'')"
  let ?ins = "[(0 :: nat, str ''a''), (0, str ''b''), (0, str ''c''), (0, str ''d''), (0, str ''e''), (0, str ''f''), (0, str ''g''), (0, str ''h'')]"
  have h: "0 \<le> wrong_attempts ?s" by (simp add: new_round_def)
  have run: "play_loop no_high_letters ?s ?ins = (Lost, ?s\<lparr>guessed_letters := {str ''a'', str ''b'', str ''c'', str ''d'', str ''e'', str ''f'', str ''g'', str ''h''}, wrong_attempts := 8\<rparr>)"
    by code_simp
  from display_game_state_in_bounds [of 8 ?s no_high_letters ?ins] h run
  show ?thesis by (simp add: difficulty_levels_def length_hangman_pics)
qed

section \<open>Upper case\<close>









end
